theory Spec2Isabelle
  imports Main "HOL-Library.Sublist"
begin

section \<open>The component panel: data model\<close>

text \<open>
  The module \<^verbatim>\<open>component_widget.py\<close> defines \<^verbatim>\<open>ComponentWidget\<close>, a tabbed panel
  that shows the parameter table, the help text and the source code of the component
  that is selected in the design. All of its methods mutate the widget and the Qt objects
  it owns, so the model passes the state explicitly. A Python exception leaves every
  mutation made before it in place: an operation therefore ends in \<open>Returns w\<close> or in
  \<open>Raises e w\<close>, and in both cases \<open>w\<close> is the state at that moment.
\<close>

datatype error = AttributeError | TypeError | OSError

datatype 'a outcome = Returns 'a | Raises error 'a

text \<open>
  What the widget reads of a class by introspection: \<^verbatim>\<open>__name__\<close>, \<^verbatim>\<open>__module__\<close>
  and the \<^verbatim>\<open>__file__\<close> of the module that defines it, which built-in classes and
  classes typed into an interactive session do not have.
\<close>

record pyclass =
  cls_name :: string
  cls_module :: string
  cls_file :: "string option"

text \<open>
  A component: its \<^verbatim>\<open>name\<close>, its \<^verbatim>\<open>__class__\<close>, and the two docstrings as
  \<^verbatim>\<open>inspect.getdoc\<close> returns them (\<open>None\<close> when there is none).
\<close>

record qcomponent =
  comp_name :: string
  comp_class :: pyclass
  comp_doc :: "string option"
  comp_init_doc :: "string option"

text \<open>
  The registry \<^verbatim>\<open>design.components\<close> is a dictionary. Its \<^verbatim>\<open>get\<close> is called with
  the stored selection, which is a string or \<^verbatim>\<open>None\<close>, so the keys are optional strings.
\<close>

record qdesign =
  components :: "string option \<rightharpoonup> qcomponent"

text \<open>
  The three names bound by \<^verbatim>\<open>import pygments\<close>, as far as \<^verbatim>\<open>_set_source\<close> uses
  them: the style sheet of \<^verbatim>\<open>HtmlFormatter(linenos='inline')\<close> and the function from a
  source text to its highlighted HTML.
\<close>

record pygments =
  style_defs :: string
  highlight_fn :: "string \<Rightarrow> string"

datatype doc_content = Blank | Html string | PlainText string

type_synonym qwidget = nat

datatype src_edit_widget =
  SourceEditWidget string string string "qwidget option"

text \<open>
  Every call that leaves the widget for one of its collaborators (Qt, the table model, the
  editor factory, the logger), in the order in which it is made. \<open>ModelRefresh\<close> carries
  the selection that the widget holds when the model is asked to refresh; the model was
  constructed with the widget and reads the selection from it.
\<close>

datatype ui_call =
    SetWindowTitle string
  | ParentSetWindowTitle string
  | LineSourcePathSetText string
  | SrcDocSetDefaultStyleSheet string
  | SrcDocSetHtml string
  | SrcDocSetPlainText string
  | TextHelpSetHtml string
  | ModelRefresh "string option"
  | AutoresizeColumns
  | MessageBoxWarning string string
  | CreateSourceEditWidget string string string "qwidget option"
  | LoggerInfo string
  | LoggerError string

text \<open>
  The state the methods work on. \<open>design\<close> is \<^verbatim>\<open>self.gui.design\<close> (\<open>None\<close> when no
  design is loaded), \<open>highlight\<close> is the module-level name \<^verbatim>\<open>highlight\<close> (\<open>None\<close>
  after a failed import), \<open>files\<close> is the file system as \<^verbatim>\<open>Path.read_text\<close> sees it
  (\<open>None\<close> for a path that cannot be read). The other fields are the widget's own
  attributes and the visible state of its Qt children.
\<close>

record widget =
  design :: "qdesign option"
  highlight :: "pygments option"
  files :: "string \<rightharpoonup> string"
  component_name :: "string option"
  html_css_lex :: "string option"
  src_widgets :: "src_edit_widget list"
  window_title :: string
  parent_window_title :: string
  lineSourcePath :: string
  src_doc_stylesheet :: string
  src_doc :: doc_content
  textHelp :: doc_content
  calls :: "ui_call list"

section \<open>Module level\<close>

text \<open>
  The import at the top of the module: either \<^verbatim>\<open>pygments\<close> loads, or the
  \<^verbatim>\<open>ImportError\<close> with message \<open>e\<close> is logged and the three names are set to
  \<^verbatim>\<open>None\<close>. The result is what was logged and the value of \<^verbatim>\<open>highlight\<close>.
\<close>

definition import_pygments :: "string + pygments \<Rightarrow> ui_call list \<times> pygments option" where
  \<open>import_pygments r =
     (case r of
        Inr p \<Rightarrow> ([], Some p)
      | Inl e \<Rightarrow>
          ([LoggerError (''Error: Could not load python package 'pygments'; Error: '' @ e)], None))\<close>

text \<open>
  \<^verbatim>\<open>str.strip()\<close> removes the white space at both ends. Characters are code points
  below 256; these are the ones for which \<^verbatim>\<open>str.isspace\<close> holds.
\<close>

definition isspace :: "char \<Rightarrow> bool" where
  "isspace c = (of_char c \<in> set [9, 10, 11, 12, 13, 28, 29, 30, 31, 32, 133, 160 :: nat])"

definition strip :: "string \<Rightarrow> string" where
  "strip s = rev (dropWhile isspace (rev (dropWhile isspace s)))"

definition format_docstr :: "string option \<Rightarrow> string" where
  \<open>format_docstr doc =
     (case doc of
        None \<Rightarrow> ''''
      | Some d \<Rightarrow>
          [CHR 0x0A] @ ''<pre style="background-color: #EBECE4;">'' @
          [CHR 0x0A] @ ''<code class="DocString">'' @ strip d @ ''</code>'' @
          [CHR 0x0A] @ ''</pre>'' @
          [CHR 0x0A] @ ''    '')\<close>

text \<open>
  \<^verbatim>\<open>inspect.getfile\<close> on a class, as current Python has it: the file of its module,
  \<^verbatim>\<open>OSError\<close> for a class of \<^verbatim>\<open>__main__\<close> without one, \<^verbatim>\<open>TypeError\<close> for any
  other class without one, which is how the built-in classes end.
\<close>

definition getfile :: "pyclass \<Rightarrow> error + string" where
  "getfile cls =
     (case cls_file cls of
        Some f \<Rightarrow> Inr f
      | None \<Rightarrow> if cls_module cls = ''__main__'' then Inl OSError else Inl TypeError)"

definition NoneType :: pyclass where
  "NoneType = \<lparr>cls_name = ''NoneType'', cls_module = ''builtins'', cls_file = None\<rparr>"

text \<open>\<^verbatim>\<open>x.__class__\<close> for \<open>x\<close> a component or \<^verbatim>\<open>None\<close>.\<close>

definition class_of :: "qcomponent option \<Rightarrow> pyclass" where
  "class_of x = (case x of None \<Rightarrow> NoneType | Some c \<Rightarrow> comp_class c)"

section \<open>The widget\<close>

text \<open>
  The constructor, as far as the state above goes: nothing is selected, no editor is open,
  both documents are empty. The widget is constructed with a parent widget, so
  \<^verbatim>\<open>self.parent()\<close> is a window with a title; \<open>ptitle\<close> is the title it has. The
  style sheets and scroll modes that the constructor sets are not part of the state.
\<close>

definition ComponentWidget_init ::
  "qdesign option \<Rightarrow> pygments option \<Rightarrow> (string \<rightharpoonup> string) \<Rightarrow> string \<Rightarrow> widget" where
  "ComponentWidget_init d hl fs ptitle =
     \<lparr>design = d, highlight = hl, files = fs,
      component_name = None, html_css_lex = None, src_widgets = [],
      window_title = '''', parent_window_title = ptitle, lineSourcePath = '''',
      src_doc_stylesheet = '''', src_doc = Blank, textHelp = Blank, calls = []\<rparr>"

text \<open>The property \<^verbatim>\<open>component\<close>: looked up afresh on every access.\<close>

definition component :: "widget \<Rightarrow> qcomponent option" where
  "component w =
     (case design w of
        None \<Rightarrow> None
      | Some d \<Rightarrow> components d (component_name w))"

definition force_refresh :: "widget \<Rightarrow> widget" where
  "force_refresh w = w\<lparr>calls := calls w @ [ModelRefresh (component_name w)]\<rparr>"

text \<open>The two formatted blocks that \<^verbatim>\<open>_set_help\<close> appends to \<^verbatim>\<open><body>\<close>.\<close>

definition help_summary :: "string \<Rightarrow> string \<Rightarrow> string \<Rightarrow> string \<Rightarrow> string" where
  \<open>help_summary nm cn mn filepath =
     [CHR 0x0A] @ ''        <div class="h1">Summary:</div>'' @
     [CHR 0x0A] @ ''        <table class="table ComponentHeader">'' @
     [CHR 0x0A] @ ''            <tbody>'' @
     [CHR 0x0A] @ ''                <tr> <th>Name</th> <td>'' @ nm @ ''</td></tr>'' @
     [CHR 0x0A] @ ''                <tr> <th>Class</th><td>'' @ cn @ ''</td></tr>'' @
     [CHR 0x0A] @ ''                <tr> <th>Module</th><td>'' @ mn @ ''</td></tr>'' @
     [CHR 0x0A] @ ''                <tr> <th>Path </th> <td style="text-color=#BBBBBB;"> '' @
                  filepath @ ''</td></tr>'' @
     [CHR 0x0A] @ ''            </tbody>'' @
     [CHR 0x0A] @ ''        </table>'' @
     [CHR 0x0A] @ ''        ''\<close>

definition help_docstrings :: "string \<Rightarrow> string \<Rightarrow> string" where
  \<open>help_docstrings doc_class doc_init =
     [CHR 0x0A] @ ''            <div class="h1">Class docstring:</div>'' @
     [CHR 0x0A] @ ''            '' @ doc_class @
     [CHR 0x0A] @ ''            <div class="h1">Init docstring:</div>'' @
     [CHR 0x0A] @ ''            '' @ doc_init @
     [CHR 0x0A] @ ''        ''\<close>

text \<open>The document that \<^verbatim>\<open>_set_help\<close> builds for a component and the path of its file.\<close>

definition help_html :: "qcomponent \<Rightarrow> string \<Rightarrow> string" where
  "help_html c filepath =
     (let doc_class = format_docstr (comp_doc c);
          doc_init = format_docstr (comp_init_doc c)
      in ''<body>''
         @ help_summary (comp_name c) (cls_name (comp_class c)) (cls_module (comp_class c)) filepath
         @ help_docstrings doc_class doc_init
         @ ''</body>'')"

definition set_help :: "widget \<Rightarrow> widget outcome" where
  "set_help w =
     (case component w of
        None \<Rightarrow> Returns w
      | Some c \<Rightarrow>
          (case getfile (comp_class c) of
             Inl e \<Rightarrow> Raises e w
           | Inr filepath \<Rightarrow>
               let text = help_html c filepath
               in Returns (w\<lparr>textHelp := Html text,
                              calls := calls w @ [TextHelpSetHtml text]\<rparr>)))"

definition set_source :: "widget \<Rightarrow> widget outcome" where
  "set_source w =
     (case getfile (class_of (component w)) of
        Inl e \<Rightarrow> Raises e w
      | Inr filepath \<Rightarrow>
          let w1 = w\<lparr>lineSourcePath := filepath,
                     calls := calls w @ [LineSourcePathSetText filepath]\<rparr>
          in (case files w1 filepath of
                None \<Rightarrow> Raises OSError w1
              | Some text \<Rightarrow>
                  (case highlight w1 of
                     Some hl \<Rightarrow>
                       Returns (w1\<lparr>html_css_lex := Some (style_defs hl),
                                    src_doc_stylesheet := style_defs hl,
                                    src_doc := Html (highlight_fn hl text),
                                    calls := calls w1 @
                                      [SrcDocSetDefaultStyleSheet (style_defs hl),
                                       SrcDocSetHtml (highlight_fn hl text)]\<rparr>)
                   | None \<Rightarrow>
                       Returns (w1\<lparr>src_doc := PlainText text,
                                    calls := calls w1 @ [SrcDocSetPlainText text]\<rparr>))))"

text \<open>The window title that \<^verbatim>\<open>set_component\<close> formats for a component.\<close>

definition label_text :: "qcomponent \<Rightarrow> string" where
  "label_text c =
     comp_name c @ ''   :   '' @ cls_name (comp_class c) @ ''   :   '' @ cls_module (comp_class c)"

definition set_component :: "string option \<Rightarrow> widget \<Rightarrow> widget outcome" where
  "set_component name w =
     (let w1 = w\<lparr>component_name := name\<rparr> in
      case name of
        None \<Rightarrow> Returns (force_refresh w1)
      | Some _ \<Rightarrow>
          (case component w1 of
             None \<Rightarrow> Raises AttributeError w1
           | Some c \<Rightarrow>
               let w2 = w1\<lparr>window_title := label_text c,
                           parent_window_title := label_text c,
                           calls := calls w1 @ [SetWindowTitle (label_text c),
                                                ParentSetWindowTitle (label_text c)]\<rparr>
               in (case set_source w2 of
                     Raises e w3 \<Rightarrow> Raises e w3
                   | Returns w3 \<Rightarrow>
                       (case set_help w3 of
                          Raises e w4 \<Rightarrow> Raises e w4
                        | Returns w4 \<Rightarrow>
                            let w5 = force_refresh w4
                            in Returns (w5\<lparr>calls := calls w5 @ [AutoresizeColumns]\<rparr>)))))"

definition edit_source :: "qwidget option \<Rightarrow> widget \<Rightarrow> widget outcome" where
  \<open>edit_source parent w =
     (case component w of
        Some c \<Rightarrow>
          let class_name = cls_name (class_of (component w));
              module_name = cls_module (class_of (component w))
          in (case getfile (class_of (component w)) of
                Inl e \<Rightarrow> Raises e w
              | Inr module_path \<Rightarrow>
                  Returns (w\<lparr>src_widgets := src_widgets w @
                                [SourceEditWidget class_name module_name module_path parent],
                              calls := calls w @
                                [CreateSourceEditWidget class_name module_name module_path parent,
                                 LoggerInfo ''Edit sources window created. Please find on your screen.'']\<rparr>))
      | None \<Rightarrow>
          Returns (w\<lparr>calls := calls w @
            [MessageBoxWarning ''Missing Selected Component''
               ''Please first select a component to edit, by clicking one in the desing components menu.'']\<rparr>))\<close>


section \<open>Observing a run\<close>

text \<open>The state in which an operation ended, and the exception it ended with, if any.\<close>

fun final :: "'a outcome \<Rightarrow> 'a" where
  "final (Returns w) = w"
| "final (Raises e w) = w"

fun raised :: "'a outcome \<Rightarrow> error option" where
  "raised (Returns w) = None"
| "raised (Raises e w) = Some e"

text \<open>
  The calls made between two states of one run. Every operation only appends to
  \<open>calls\<close>, so these are the calls after the first \<open>length (calls w)\<close> ones.
\<close>

definition calls_since :: "widget \<Rightarrow> widget \<Rightarrow> ui_call list" where
  "calls_since w w' = drop (length (calls w)) (calls w')"

fun is_model_refresh :: "ui_call \<Rightarrow> bool" where
  "is_model_refresh (ModelRefresh s) = True"
| "is_model_refresh c = False"

fun is_logger_error :: "ui_call \<Rightarrow> bool" where
  "is_logger_error (LoggerError m) = True"
| "is_logger_error c = False"

fun is_warning :: "ui_call \<Rightarrow> bool" where
  "is_warning (MessageBoxWarning t m) = True"
| "is_warning c = False"

fun is_create_editor :: "ui_call \<Rightarrow> bool" where
  "is_create_editor (CreateSourceEditWidget cn mn mp parent) = True"
| "is_create_editor c = False"

section \<open>A small design\<close>

text \<open>
  A design for the concrete runs below. \<open>Q1\<close> is an ordinary component. The class of
  \<open>Q2\<close> comes from a file that is no longer on disk.
\<close>

definition transmon_class :: pyclass where
  "transmon_class =
     \<lparr>cls_name = ''TransmonPocket'',
      cls_module = ''qiskit_metal.components.qubits.transmon_pocket'',
      cls_file = Some ''/opt/qiskit_metal/components/qubits/transmon_pocket.py''\<rparr>"

definition moved_class :: pyclass where
  "moved_class =
     \<lparr>cls_name = ''MyCoupler'',
      cls_module = ''lab.couplers'',
      cls_file = Some ''/home/lab/couplers.py''\<rparr>"

definition Q1 :: qcomponent where
  "Q1 = \<lparr>comp_name = ''Q1'', comp_class = transmon_class,
          comp_doc = Some (''  A transmon pocket.'' @ [CHR 0x0A]), comp_init_doc = None\<rparr>"

definition Q2 :: qcomponent where
  "Q2 = \<lparr>comp_name = ''Q2'', comp_class = moved_class,
          comp_doc = None, comp_init_doc = None\<rparr>"

definition transmon_source :: string where
  "transmon_source = ''class TransmonPocket(BaseQubit):'' @ [CHR 0x0A] @ ''    pass'' @ [CHR 0x0A]"

definition small_design :: qdesign where
  "small_design =
     \<lparr>components = [Some ''Q1'' \<mapsto> Q1, Some ''Q2'' \<mapsto> Q2]\<rparr>"

definition disk :: "string \<rightharpoonup> string" where
  "disk = [''/opt/qiskit_metal/components/qubits/transmon_pocket.py'' \<mapsto> transmon_source]"

text \<open>The widget right after construction, in a process where \<^verbatim>\<open>pygments\<close> is missing.\<close>

definition fresh_widget :: widget where
  "fresh_widget =
     ComponentWidget_init (Some small_design)
       (snd (import_pygments (Inl ''No module named pygments'')))
       disk ''Component''"

section \<open>Auxiliary facts\<close>

lemmas small_design_defs = fresh_widget_def ComponentWidget_init_def import_pygments_def
  small_design_def disk_def Q1_def Q2_def transmon_class_def moved_class_def

lemma component_fresh:
  "component (fresh_widget\<lparr>component_name := Some n\<rparr>) =
     (if n = ''Q2'' then Some Q2 else if n = ''Q1'' then Some Q1 else None)"
  by (simp add: component_def fresh_widget_def ComponentWidget_init_def small_design_def)

lemma fresh_Q1:
  "component (fresh_widget\<lparr>component_name := Some ''Q1''\<rparr>) = Some Q1"
  by (simp add: component_fresh)

lemma getfile_Q1:
  "getfile (comp_class Q1) = Inr ''/opt/qiskit_metal/components/qubits/transmon_pocket.py''"
  by (simp add: getfile_def Q1_def transmon_class_def)

lemma disk_Q1:
  "files fresh_widget ''/opt/qiskit_metal/components/qubits/transmon_pocket.py''
     = Some transmon_source"
  by (simp add: fresh_widget_def ComponentWidget_init_def disk_def)

lemma highlight_fresh: "highlight fresh_widget = None"
  by (simp add: fresh_widget_def ComponentWidget_init_def import_pygments_def)

lemma component_fresh_None: "component fresh_widget = None"
  by (simp add: component_def fresh_widget_def ComponentWidget_init_def small_design_def)

lemma Q1_fields:
  "comp_name Q1 = ''Q1''"
  "cls_name (comp_class Q1) = ''TransmonPocket''"
  "cls_module (comp_class Q1) = ''qiskit_metal.components.qubits.transmon_pocket''"
  "comp_init_doc Q1 = None"
  by (simp_all add: Q1_def transmon_class_def)

text \<open>The docstring of \<open>Q1\<close> loses its leading blanks and its final newline.\<close>

lemma Q1_doc_block:
  \<open>format_docstr (comp_doc Q1) =
     [CHR 0x0A] @ ''<pre style="background-color: #EBECE4;">'' @
     [CHR 0x0A] @ ''<code class="DocString">A transmon pocket.</code>'' @
     [CHR 0x0A] @ ''</pre>'' @
     [CHR 0x0A] @ ''    ''\<close>
  by (simp add: format_docstr_def Q1_def strip_def isspace_def)

text \<open>The property \<open>component\<close> reads the design and the stored selection, nothing else.\<close>

lemma component_frame:
  "design w' = design w \<Longrightarrow> component_name w' = component_name w \<Longrightarrow> component w' = component w"
  by (simp add: component_def split: option.splits)

lemma set_source_readable:
  assumes "component w = Some c" and "getfile (comp_class c) = Inr p" and "files w p = Some t"
  shows "set_source w = Returns
           (case highlight w of
              None \<Rightarrow> w\<lparr>lineSourcePath := p, src_doc := PlainText t,
                         calls := calls w @ [LineSourcePathSetText p, SrcDocSetPlainText t]\<rparr>
            | Some hl \<Rightarrow> w\<lparr>html_css_lex := Some (style_defs hl), lineSourcePath := p,
                         src_doc_stylesheet := style_defs hl,
                         src_doc := Html (highlight_fn hl t),
                         calls := calls w @ [LineSourcePathSetText p,
                           SrcDocSetDefaultStyleSheet (style_defs hl),
                           SrcDocSetHtml (highlight_fn hl t)]\<rparr>)"
  using assms by (simp add: set_source_def class_of_def split: option.splits)

lemma set_help_present:
  assumes "component w = Some c" and "getfile (comp_class c) = Inr p"
  shows "set_help w = Returns (w\<lparr>textHelp := Html (help_html c p),
                                 calls := calls w @ [TextHelpSetHtml (help_html c p)]\<rparr>)"
  using assms by (simp add: set_help_def Let_def)

text \<open>
  The whole run of \<open>set_component\<close> for a name that resolves to a component whose source
  file is found and read: the state it returns, field by field.
\<close>

lemma set_component_resolved:
  assumes "component (w\<lparr>component_name := Some n\<rparr>) = Some c"
    and "getfile (comp_class c) = Inr p" and "files w p = Some t"
  shows "\<exists>w'. set_component (Some n) w = Returns w'
           \<and> component_name w' = Some n
           \<and> design w' = design w
           \<and> window_title w' = label_text c
           \<and> parent_window_title w' = label_text c
           \<and> lineSourcePath w' = p
           \<and> src_doc w' = (case highlight w of None \<Rightarrow> PlainText t
                            | Some hl \<Rightarrow> Html (highlight_fn hl t))
           \<and> textHelp w' = Html (help_html c p)
           \<and> calls w' = calls w
                @ [SetWindowTitle (label_text c), ParentSetWindowTitle (label_text c),
                   LineSourcePathSetText p]
                @ (case highlight w of None \<Rightarrow> [SrcDocSetPlainText t]
                   | Some hl \<Rightarrow> [SrcDocSetDefaultStyleSheet (style_defs hl),
                                SrcDocSetHtml (highlight_fn hl t)])
                @ [TextHelpSetHtml (help_html c p), ModelRefresh (Some n), AutoresizeColumns]"
proof -
  let ?w2 = "w\<lparr>component_name := Some n, window_title := label_text c,
                parent_window_title := label_text c,
                calls := calls w @ [SetWindowTitle (label_text c),
                                    ParentSetWindowTitle (label_text c)]\<rparr>"
  have "component ?w2 = component (w\<lparr>component_name := Some n\<rparr>)"
    by (rule component_frame) simp_all
  with assms(1) have c2: "component ?w2 = Some c"
    by simp
  have f2: "files ?w2 p = Some t"
    using assms(3) by simp
  note src = set_source_readable [OF c2 assms(2) f2]
  show ?thesis
  proof (cases "highlight w")
    case None
    let ?w3 = "?w2\<lparr>lineSourcePath := p, src_doc := PlainText t,
                 calls := calls ?w2 @ [LineSourcePathSetText p, SrcDocSetPlainText t]\<rparr>"
    have s: "set_source ?w2 = Returns ?w3"
      using src None by simp
    have "component ?w3 = component ?w2"
      by (rule component_frame) simp_all
    with c2 have c3: "component ?w3 = Some c"
      by simp
    note hlp = set_help_present [OF c3 assms(2)]
    show ?thesis
      using assms(1) None s hlp
      by (simp add: set_component_def force_refresh_def Let_def)
  next
    case (Some hl)
    let ?w3 = "?w2\<lparr>html_css_lex := Some (style_defs hl), lineSourcePath := p,
                 src_doc_stylesheet := style_defs hl,
                 src_doc := Html (highlight_fn hl t),
                 calls := calls ?w2 @ [LineSourcePathSetText p,
                           SrcDocSetDefaultStyleSheet (style_defs hl),
                           SrcDocSetHtml (highlight_fn hl t)]\<rparr>"
    have s: "set_source ?w2 = Returns ?w3"
      using src Some by simp
    have "component ?w3 = component ?w2"
      by (rule component_frame) simp_all
    with c2 have c3: "component ?w3 = Some c"
      by simp
    note hlp = set_help_present [OF c3 assms(2)]
    show ?thesis
      using assms(1) Some s hlp
      by (simp add: set_component_def force_refresh_def Let_def)
  qed
qed

text \<open>Neither pane renderer touches the stored selection, whether it returns or raises.\<close>

lemma set_source_final_name: "component_name (final (set_source w)) = component_name w"
  by (simp add: set_source_def Let_def split: sum.splits option.splits)

lemma set_help_final_name: "component_name (final (set_help w)) = component_name w"
  by (simp add: set_help_def Let_def split: sum.splits option.splits)

lemma sublist_skip: "sublist xs zs \<Longrightarrow> sublist xs (ys @ zs)"
  by (metis append.assoc sublist_def)

lemma help_html_name: "sublist (comp_name c) (help_html c p)"
  by (simp only: help_html_def help_summary_def help_docstrings_def Let_def append_assoc)
     ((rule sublist_append_rightI | rule sublist_skip)+)

lemma help_html_class: "sublist (cls_name (comp_class c)) (help_html c p)"
  by (simp only: help_html_def help_summary_def help_docstrings_def Let_def append_assoc)
     ((rule sublist_append_rightI | rule sublist_skip)+)

lemma help_html_module: "sublist (cls_module (comp_class c)) (help_html c p)"
  by (simp only: help_html_def help_summary_def help_docstrings_def Let_def append_assoc)
     ((rule sublist_append_rightI | rule sublist_skip)+)

lemma help_html_doc: "sublist (format_docstr (comp_doc c)) (help_html c p)"
  by (simp only: help_html_def help_summary_def help_docstrings_def Let_def append_assoc)
     ((rule sublist_append_rightI | rule sublist_skip)+)

lemma help_html_init_doc: "sublist (format_docstr (comp_init_doc c)) (help_html c p)"
  by (simp only: help_html_def help_summary_def help_docstrings_def Let_def append_assoc)
     ((rule sublist_append_rightI | rule sublist_skip)+)

section \<open>Selecting a component\<close>

text \<open>
  Claim C1: for every name that is absent from the registry, \<open>set_component\<close> does not
  raise, the resolved component is \<open>None\<close>, and the views treat this as the case of no
  component. The lookup does give \<open>None\<close>, but \<open>set_component\<close> then reads
  \<^verbatim>\<open>component.name\<close> for the window title without the test that \<^verbatim>\<open>_set_help\<close> and
  \<^verbatim>\<open>edit_source\<close> make: the run below ends in \<^verbatim>\<open>AttributeError\<close>, with the name
  stored and no view refreshed.
\<close>

theorem set_component_missing_name_raises:
  "set_component (Some ''missing-name'') fresh_widget =
     Raises AttributeError (fresh_widget\<lparr>component_name := Some ''missing-name''\<rparr>)
   \<and> component (fresh_widget\<lparr>component_name := Some ''missing-name''\<rparr>) = None"
  by (simp add: set_component_def component_fresh)

text \<open>
  Claim C2, as amended: \<open>set_component\<close> with \<open>None\<close> does not raise, leaves \<open>None\<close> as
  the stored selection, and asks the table model to refresh; that is all it does: no
  title, no source pane, no help pane is touched.
\<close>

theorem set_component_None_refreshes:
  "set_component None w =
     Returns (w\<lparr>component_name := None, calls := calls w @ [ModelRefresh None]\<rparr>)"
  by (simp add: set_component_def force_refresh_def)

text \<open>
  The claim as stated also covers the empty string. The test in the code is
  \<^verbatim>\<open>name is None\<close>, so the empty string is looked up like any other name; it is not in
  the registry here, the run raises, and \<^verbatim>\<open>''\<close> is what is stored.
\<close>

theorem set_component_empty_string_raises:
  "set_component (Some '''') fresh_widget =
     Raises AttributeError (fresh_widget\<lparr>component_name := Some ''''\<rparr>)"
  by (simp add: set_component_def component_fresh)

text \<open>
  Claim C3, as amended: for every name other than \<open>None\<close> that resolves to a component
  whose class has a source file that can be read, \<open>set_component\<close> returns, has stored the
  name, and has made exactly these calls in this order: the window title and the parent's
  title are set to \<open>label_text\<close> (name, class and module of the component, separated by a
  colon with three spaces on each side), then the source pane is filled (path field, then
  the document), then the help pane, then the table model is refreshed, then the columns
  are resized.
\<close>

theorem set_component_resolved_sequence:
  assumes "component (w\<lparr>component_name := Some n\<rparr>) = Some c"
    and "getfile (comp_class c) = Inr p"
    and "files w p = Some t"
  shows "\<exists>w'. set_component (Some n) w = Returns w'
           \<and> component_name w' = Some n
           \<and> component w' = Some c
           \<and> window_title w' = label_text c
           \<and> parent_window_title w' = label_text c
           \<and> calls_since w w' =
                [SetWindowTitle (label_text c), ParentSetWindowTitle (label_text c),
                 LineSourcePathSetText p]
                @ (case highlight w of
                     None \<Rightarrow> [SrcDocSetPlainText t]
                   | Some hl \<Rightarrow> [SrcDocSetDefaultStyleSheet (style_defs hl),
                                SrcDocSetHtml (highlight_fn hl t)])
                @ [TextHelpSetHtml (help_html c p), ModelRefresh (Some n), AutoresizeColumns]"
proof -
  from set_component_resolved [OF assms] obtain w' where
    r: "set_component (Some n) w = Returns w'"
    and n: "component_name w' = Some n"
    and d: "design w' = design w"
    and t: "window_title w' = label_text c" "parent_window_title w' = label_text c"
    and k: "calls w' = calls w
              @ [SetWindowTitle (label_text c), ParentSetWindowTitle (label_text c),
                 LineSourcePathSetText p]
              @ (case highlight w of
                   None \<Rightarrow> [SrcDocSetPlainText t]
                 | Some hl \<Rightarrow> [SrcDocSetDefaultStyleSheet (style_defs hl),
                              SrcDocSetHtml (highlight_fn hl t)])
              @ [TextHelpSetHtml (help_html c p), ModelRefresh (Some n), AutoresizeColumns]"
    by blast
  have "component w' = component (w\<lparr>component_name := Some n\<rparr>)"
    by (rule component_frame) (simp_all add: n d)
  with assms(1) have c: "component w' = Some c"
    by simp
  from k have "calls_since w w' =
      [SetWindowTitle (label_text c), ParentSetWindowTitle (label_text c),
       LineSourcePathSetText p]
      @ (case highlight w of
           None \<Rightarrow> [SrcDocSetPlainText t]
         | Some hl \<Rightarrow> [SrcDocSetDefaultStyleSheet (style_defs hl),
                      SrcDocSetHtml (highlight_fn hl t)])
      @ [TextHelpSetHtml (help_html c p), ModelRefresh (Some n), AutoresizeColumns]"
    by (simp add: calls_since_def)
  with r n c t show ?thesis
    by blast
qed

text \<open>The run for \<open>Q1\<close> on the freshly built widget, where highlighting is missing.\<close>

theorem set_component_resolved_sequence_witness:
  "component (fresh_widget\<lparr>component_name := Some ''Q1''\<rparr>) = Some Q1
   \<and> getfile (comp_class Q1) = Inr ''/opt/qiskit_metal/components/qubits/transmon_pocket.py''
   \<and> files fresh_widget ''/opt/qiskit_metal/components/qubits/transmon_pocket.py''
        = Some transmon_source
   \<and> (\<exists>w'. set_component (Some ''Q1'') fresh_widget = Returns w'
         \<and> component_name w' = Some ''Q1''
         \<and> window_title w' =
             ''Q1   :   TransmonPocket   :   qiskit_metal.components.qubits.transmon_pocket''
         \<and> calls_since fresh_widget w' =
              [SetWindowTitle (label_text Q1), ParentSetWindowTitle (label_text Q1),
               LineSourcePathSetText ''/opt/qiskit_metal/components/qubits/transmon_pocket.py'',
               SrcDocSetPlainText transmon_source,
               TextHelpSetHtml
                 (help_html Q1 ''/opt/qiskit_metal/components/qubits/transmon_pocket.py''),
               ModelRefresh (Some ''Q1''), AutoresizeColumns])"
proof -
  have l: "label_text Q1 =
      ''Q1   :   TransmonPocket   :   qiskit_metal.components.qubits.transmon_pocket''"
    by (simp add: label_text_def Q1_def transmon_class_def)
  from set_component_resolved_sequence [OF fresh_Q1 getfile_Q1 disk_Q1] obtain w' where
    "set_component (Some ''Q1'') fresh_widget = Returns w'"
    "component_name w' = Some ''Q1''"
    "window_title w' = label_text Q1"
    "calls_since fresh_widget w' =
       [SetWindowTitle (label_text Q1), ParentSetWindowTitle (label_text Q1),
        LineSourcePathSetText ''/opt/qiskit_metal/components/qubits/transmon_pocket.py'']
       @ (case highlight fresh_widget of
            None \<Rightarrow> [SrcDocSetPlainText transmon_source]
          | Some hl \<Rightarrow> [SrcDocSetDefaultStyleSheet (style_defs hl),
                       SrcDocSetHtml (highlight_fn hl transmon_source)])
       @ [TextHelpSetHtml
            (help_html Q1 ''/opt/qiskit_metal/components/qubits/transmon_pocket.py''),
          ModelRefresh (Some ''Q1''), AutoresizeColumns]"
    by blast
  then have "\<exists>w'. set_component (Some ''Q1'') fresh_widget = Returns w'
         \<and> component_name w' = Some ''Q1''
         \<and> window_title w' =
             ''Q1   :   TransmonPocket   :   qiskit_metal.components.qubits.transmon_pocket''
         \<and> calls_since fresh_widget w' =
              [SetWindowTitle (label_text Q1), ParentSetWindowTitle (label_text Q1),
               LineSourcePathSetText ''/opt/qiskit_metal/components/qubits/transmon_pocket.py'',
               SrcDocSetPlainText transmon_source,
               TextHelpSetHtml
                 (help_html Q1 ''/opt/qiskit_metal/components/qubits/transmon_pocket.py''),
               ModelRefresh (Some ''Q1''), AutoresizeColumns]"
    by (simp add: highlight_fresh l)
  with fresh_Q1 getfile_Q1 disk_Q1 show ?thesis
    by blast
qed

text \<open>
  The claim as stated speaks of every non-empty name. \<open>Q2\<close> is in the registry, but its
  source file is gone: the titles and the path field are set, reading the file raises, and
  neither the help pane nor the table model nor the column widths are reached.
\<close>

theorem set_component_unreadable_source_stops:
  "set_component (Some ''Q2'') fresh_widget =
     Raises OSError (fresh_widget\<lparr>component_name := Some ''Q2'',
       window_title := label_text Q2, parent_window_title := label_text Q2,
       lineSourcePath := ''/home/lab/couplers.py'',
       calls := [SetWindowTitle (label_text Q2), ParentSetWindowTitle (label_text Q2),
                 LineSourcePathSetText ''/home/lab/couplers.py'']\<rparr>)"
  by (simp add: set_component_def set_source_def component_def class_of_def getfile_def
        small_design_defs)

text \<open>
  Claim C4, as amended: for every call of \<open>set_component\<close> with \<open>None\<close>, or with a name
  that resolves to a component whose class has a source file that can be read, the call
  returns and the table model is asked to refresh exactly once during it, at a moment when
  the stored selection is already the new name.
\<close>

theorem set_component_refresh_once:
  assumes "name = None
     \<or> (\<exists>c p t. component (w\<lparr>component_name := name\<rparr>) = Some c
           \<and> getfile (comp_class c) = Inr p \<and> files w p = Some t)"
  shows "\<exists>w'. set_component name w = Returns w'
           \<and> filter is_model_refresh (calls_since w w') = [ModelRefresh name]"
proof (cases name)
  case None
  then show ?thesis
    by (simp add: set_component_def force_refresh_def calls_since_def)
next
  case (Some n)
  with assms obtain c p t where
    h: "component (w\<lparr>component_name := Some n\<rparr>) = Some c"
       "getfile (comp_class c) = Inr p" "files w p = Some t"
    by auto
  from set_component_resolved [OF h] obtain w' where
    r: "set_component (Some n) w = Returns w'"
    and k: "calls w' = calls w
              @ [SetWindowTitle (label_text c), ParentSetWindowTitle (label_text c),
                 LineSourcePathSetText p]
              @ (case highlight w of
                   None \<Rightarrow> [SrcDocSetPlainText t]
                 | Some hl \<Rightarrow> [SrcDocSetDefaultStyleSheet (style_defs hl),
                              SrcDocSetHtml (highlight_fn hl t)])
              @ [TextHelpSetHtml (help_html c p), ModelRefresh (Some n), AutoresizeColumns]"
    by blast
  from k have "filter is_model_refresh (calls_since w w') = [ModelRefresh (Some n)]"
    by (simp add: calls_since_def split: option.splits)
  with r Some show ?thesis
    by simp
qed

text \<open>Both kinds of call on the freshly built widget: deselecting, and selecting \<open>Q1\<close>.\<close>

theorem set_component_refresh_once_witness:
  "(\<exists>w'. set_component None fresh_widget = Returns w'
        \<and> filter is_model_refresh (calls_since fresh_widget w') = [ModelRefresh None])
   \<and> component (fresh_widget\<lparr>component_name := Some ''Q1''\<rparr>) = Some Q1
   \<and> getfile (comp_class Q1) = Inr ''/opt/qiskit_metal/components/qubits/transmon_pocket.py''
   \<and> files fresh_widget ''/opt/qiskit_metal/components/qubits/transmon_pocket.py''
        = Some transmon_source
   \<and> (\<exists>w'. set_component (Some ''Q1'') fresh_widget = Returns w'
        \<and> filter is_model_refresh (calls_since fresh_widget w') = [ModelRefresh (Some ''Q1'')])"
proof -
  have a: "\<exists>w'. set_component None fresh_widget = Returns w'
        \<and> filter is_model_refresh (calls_since fresh_widget w') = [ModelRefresh None]"
    by (rule set_component_refresh_once) simp
  have "Some ''Q1'' = None
     \<or> (\<exists>c p t. component (fresh_widget\<lparr>component_name := Some ''Q1''\<rparr>) = Some c
           \<and> getfile (comp_class c) = Inr p \<and> files fresh_widget p = Some t)"
    using fresh_Q1 getfile_Q1 disk_Q1 by blast
  then have b: "\<exists>w'. set_component (Some ''Q1'') fresh_widget = Returns w'
        \<and> filter is_model_refresh (calls_since fresh_widget w') = [ModelRefresh (Some ''Q1'')]"
    by (rule set_component_refresh_once)
  from a b fresh_Q1 getfile_Q1 disk_Q1 show ?thesis
    by blast
qed

text \<open>
  The claim as stated covers every call. \<open>Q2\<close> is a name of the registry, but the
  file of its class cannot be read: the call raises in the source pane, and the table model
  is never asked to refresh.
\<close>

theorem set_component_unreadable_no_refresh:
  "component (fresh_widget\<lparr>component_name := Some ''Q2''\<rparr>) = Some Q2
   \<and> raised (set_component (Some ''Q2'') fresh_widget) = Some OSError
   \<and> filter is_model_refresh (calls (final (set_component (Some ''Q2'') fresh_widget))) = []"
  by (simp add: set_component_def set_source_def component_def class_of_def getfile_def
        small_design_defs)

text \<open>
  Claim C10: \<open>set_component\<close> is not atomic. The name is stored before the component is
  looked up and before any view is refreshed, so whenever the call raises, the stored
  selection is already the new name.
\<close>

theorem set_component_stores_name_before_raise:
  "set_component name w = Raises e w' \<Longrightarrow> component_name w' = name"
proof (cases name)
  case None
  assume "set_component name w = Raises e w'"
  with None show ?thesis by (simp add: set_component_def)
next
  case (Some n)
  assume r: "set_component name w = Raises e w'"
  show ?thesis
  proof (cases "component (w\<lparr>component_name := name\<rparr>)")
    case None
    with r Some show ?thesis by (auto simp: set_component_def)
  next
    case c: (Some c)
    let ?w2 = "w\<lparr>component_name := name, window_title := label_text c,
                  parent_window_title := label_text c,
                  calls := calls w @ [SetWindowTitle (label_text c),
                                      ParentSetWindowTitle (label_text c)]\<rparr>"
    have n2: "component_name (final (set_source ?w2)) = name"
      by (simp add: set_source_final_name)
    show ?thesis
    proof (cases "set_source ?w2")
      case (Raises e3 w3)
      with r Some c n2 show ?thesis by (auto simp: set_component_def)
    next
      case (Returns w3)
      with n2 have n3: "component_name (final (set_help w3)) = name"
        by (simp add: set_help_final_name)
      from r Some c Returns n3 show ?thesis
        by (cases "set_help w3") (auto simp: set_component_def Let_def)
    qed
  qed
qed

text \<open>
  A call that raises: \<open>Q7\<close> is not in the registry. Nothing was selected before, and
  \<open>Q7\<close> is selected after.
\<close>

theorem set_component_stores_name_before_raise_witness:
  "set_component (Some ''Q7'') fresh_widget =
     Raises AttributeError (fresh_widget\<lparr>component_name := Some ''Q7''\<rparr>)
   \<and> component_name fresh_widget = None
   \<and> component_name (fresh_widget\<lparr>component_name := Some ''Q7''\<rparr>) = Some ''Q7''"
proof -
  have r: "set_component (Some ''Q7'') fresh_widget =
     Raises AttributeError (fresh_widget\<lparr>component_name := Some ''Q7''\<rparr>)"
    by (simp add: set_component_def component_fresh)
  have "component_name fresh_widget = None"
    by (simp add: fresh_widget_def ComponentWidget_init_def)
  with r set_component_stores_name_before_raise [OF r] show ?thesis
    by blast
qed

section \<open>The help pane\<close>

text \<open>
  Claim C5: when the resolved component is absent, \<open>set_help\<close> updates nothing and does
  not raise: it returns the state it was given, so the help document holds what it held
  before.
\<close>

theorem set_help_absent_keeps_pane:
  "component w = None \<Longrightarrow> set_help w = Returns w"
  by (simp add: set_help_def)

text \<open>A widget whose help pane shows an older text while \<open>Q7\<close>, which does not exist, is selected.\<close>

theorem set_help_absent_keeps_pane_witness:
  "component (fresh_widget\<lparr>component_name := Some ''Q7'', textHelp := Html ''<body>old</body>''\<rparr>) = None
   \<and> set_help (fresh_widget\<lparr>component_name := Some ''Q7'', textHelp := Html ''<body>old</body>''\<rparr>)
       = Returns (fresh_widget\<lparr>component_name := Some ''Q7'', textHelp := Html ''<body>old</body>''\<rparr>)
   \<and> textHelp (fresh_widget\<lparr>component_name := Some ''Q7'', textHelp := Html ''<body>old</body>''\<rparr>)
       = Html ''<body>old</body>''"
proof -
  have "component (fresh_widget\<lparr>component_name := Some ''Q7'', textHelp := Html ''<body>old</body>''\<rparr>)
      = component (fresh_widget\<lparr>component_name := Some ''Q7''\<rparr>)"
    by (rule component_frame) simp_all
  then have a: "component (fresh_widget\<lparr>component_name := Some ''Q7'',
      textHelp := Html ''<body>old</body>''\<rparr>) = None"
    by (simp add: component_fresh)
  from a set_help_absent_keeps_pane [OF a] show ?thesis
    by simp
qed

text \<open>
  Claim C9, as amended: for every name in the registry whose component's class has a
  source file that can be read, \<open>set_component\<close> returns and the help pane then holds
  \<open>help_html\<close>, which contains the component's name, its class name and its module name
  as they are, and the two docstring blocks; a block is the empty string when the
  docstring is missing, and otherwise the stripped docstring inside \<^verbatim>\<open><pre><code>\<close>.
\<close>

theorem set_component_help_content:
  assumes "component (w\<lparr>component_name := Some n\<rparr>) = Some c"
    and "getfile (comp_class c) = Inr p"
    and "files w p = Some t"
  shows \<open>(\<exists>w'. set_component (Some n) w = Returns w'
            \<and> textHelp w' = Html (help_html c p))
         \<and> sublist (comp_name c) (help_html c p)
         \<and> sublist (cls_name (comp_class c)) (help_html c p)
         \<and> sublist (cls_module (comp_class c)) (help_html c p)
         \<and> sublist (format_docstr (comp_doc c)) (help_html c p)
         \<and> sublist (format_docstr (comp_init_doc c)) (help_html c p)
         \<and> format_docstr None = ''''
         \<and> format_docstr (Some d) =
              [CHR 0x0A] @ ''<pre style="background-color: #EBECE4;">'' @
              [CHR 0x0A] @ ''<code class="DocString">'' @ strip d @ ''</code>'' @
              [CHR 0x0A] @ ''</pre>'' @
              [CHR 0x0A] @ ''    ''\<close>
proof -
  from set_component_resolved [OF assms] have
    "\<exists>w'. set_component (Some n) w = Returns w' \<and> textHelp w' = Html (help_html c p)"
    by blast
  moreover have "format_docstr None = ''''"
    by (simp add: format_docstr_def)
  moreover have \<open>format_docstr (Some d) =
              [CHR 0x0A] @ ''<pre style="background-color: #EBECE4;">'' @
              [CHR 0x0A] @ ''<code class="DocString">'' @ strip d @ ''</code>'' @
              [CHR 0x0A] @ ''</pre>'' @
              [CHR 0x0A] @ ''    ''\<close>
    by (simp add: format_docstr_def)
  ultimately show ?thesis
    using help_html_name [of c p] help_html_class [of c p] help_html_module [of c p]
      help_html_doc [of c p] help_html_init_doc [of c p]
    by blast
qed

text \<open>The help pane for \<open>Q1\<close>, which has a class docstring and no docstring for its constructor.\<close>

theorem set_component_help_content_witness:
  \<open>component (fresh_widget\<lparr>component_name := Some ''Q1''\<rparr>) = Some Q1
   \<and> getfile (comp_class Q1) = Inr ''/opt/qiskit_metal/components/qubits/transmon_pocket.py''
   \<and> files fresh_widget ''/opt/qiskit_metal/components/qubits/transmon_pocket.py''
        = Some transmon_source
   \<and> (\<exists>w'. set_component (Some ''Q1'') fresh_widget = Returns w'
         \<and> textHelp w' =
             Html (help_html Q1 ''/opt/qiskit_metal/components/qubits/transmon_pocket.py''))
   \<and> sublist ''Q1''
        (help_html Q1 ''/opt/qiskit_metal/components/qubits/transmon_pocket.py'')
   \<and> sublist ''TransmonPocket''
        (help_html Q1 ''/opt/qiskit_metal/components/qubits/transmon_pocket.py'')
   \<and> sublist ''qiskit_metal.components.qubits.transmon_pocket''
        (help_html Q1 ''/opt/qiskit_metal/components/qubits/transmon_pocket.py'')
   \<and> sublist
        ([CHR 0x0A] @ ''<pre style="background-color: #EBECE4;">'' @
         [CHR 0x0A] @ ''<code class="DocString">A transmon pocket.</code>'' @
         [CHR 0x0A] @ ''</pre>'' @
         [CHR 0x0A] @ ''    '')
        (help_html Q1 ''/opt/qiskit_metal/components/qubits/transmon_pocket.py'')
   \<and> format_docstr (comp_init_doc Q1) = ''''\<close>
proof -
  note h = set_component_help_content [OF fresh_Q1 getfile_Q1 disk_Q1, of "''''"]
  from h have i: "format_docstr (comp_init_doc Q1) = ''''"
    by (simp only: Q1_fields)
  from h fresh_Q1 getfile_Q1 disk_Q1 i show ?thesis
    by (simp only: Q1_fields Q1_doc_block)
qed

text \<open>
  The claim as stated covers every name in the registry. \<open>Q2\<close> is in the registry, but
  its source file is gone: the source pane is filled before the help pane, reading the file
  raises, and the help pane is still empty afterwards.
\<close>

theorem set_component_unreadable_help_blank:
  "components small_design (Some ''Q2'') = Some Q2
   \<and> raised (set_component (Some ''Q2'') fresh_widget) = Some OSError
   \<and> textHelp (final (set_component (Some ''Q2'') fresh_widget)) = Blank"
  by (simp add: set_component_def set_source_def component_def class_of_def getfile_def
        small_design_defs)

section \<open>The source pane\<close>

text \<open>
  Claim C6, as amended: when an absent component reaches \<open>set_source\<close>, resolving the
  file of its class fails with \<^verbatim>\<open>TypeError\<close>, and the failure goes to the caller as it
  is: nothing catches it, no warning is shown, and the state is the one before the call.
\<close>

theorem set_source_absent_raises:
  "component w = None \<Longrightarrow> set_source w = Raises TypeError w"
  by (simp add: set_source_def class_of_def getfile_def NoneType_def)

text \<open>The source pane asked to show \<open>Q9\<close>, which does not exist.\<close>

theorem set_source_absent_raises_witness:
  "component (fresh_widget\<lparr>component_name := Some ''Q9''\<rparr>) = None
   \<and> set_source (fresh_widget\<lparr>component_name := Some ''Q9''\<rparr>)
       = Raises TypeError (fresh_widget\<lparr>component_name := Some ''Q9''\<rparr>)"
proof -
  have a: "component (fresh_widget\<lparr>component_name := Some ''Q9''\<rparr>) = None"
    by (simp add: component_fresh)
  from a set_source_absent_raises [OF a] show ?thesis
    by simp
qed

text \<open>
  The claim as stated has the failure caught and shown as a warning. On the freshly built
  widget, where nothing is selected, the call ends with the exception and no warning
  dialog was opened.
\<close>

theorem set_source_absent_propagates:
  "raised (set_source fresh_widget) = Some TypeError
   \<and> filter is_warning (calls (final (set_source fresh_widget))) = []"
  by (simp add: set_source_def component_def class_of_def getfile_def NoneType_def
        small_design_defs)

text \<open>
  Claim C7: when highlighting is unavailable, then for every name that resolves to a
  component with a source file, \<open>set_component\<close> returns and the source document holds the
  text of that file as plain text. The missing package is logged once, by the import at
  the top of the module, which also sets \<open>highlight\<close> to \<open>None\<close>; selecting a component
  logs no error.
\<close>

theorem set_component_plain_source:
  assumes "highlight w = None"
    and "component (w\<lparr>component_name := Some n\<rparr>) = Some c"
    and "getfile (comp_class c) = Inr p"
    and "files w p = Some t"
  shows "(\<exists>w'. set_component (Some n) w = Returns w'
            \<and> src_doc w' = PlainText t
            \<and> SrcDocSetPlainText t \<in> set (calls_since w w')
            \<and> filter is_logger_error (calls_since w w') = [])
         \<and> snd (import_pygments (Inl e)) = None
         \<and> length (filter is_logger_error (fst (import_pygments (Inl e)))) = 1"
proof -
  from set_component_resolved [OF assms(2-4)] obtain w' where
    r: "set_component (Some n) w = Returns w'"
    and s: "src_doc w' = (case highlight w of None \<Rightarrow> PlainText t
                          | Some hl \<Rightarrow> Html (highlight_fn hl t))"
    and k: "calls w' = calls w
              @ [SetWindowTitle (label_text c), ParentSetWindowTitle (label_text c),
                 LineSourcePathSetText p]
              @ (case highlight w of
                   None \<Rightarrow> [SrcDocSetPlainText t]
                 | Some hl \<Rightarrow> [SrcDocSetDefaultStyleSheet (style_defs hl),
                              SrcDocSetHtml (highlight_fn hl t)])
              @ [TextHelpSetHtml (help_html c p), ModelRefresh (Some n), AutoresizeColumns]"
    by blast
  from s assms(1) have s': "src_doc w' = PlainText t"
    by simp
  from k assms(1) have k': "calls_since w w' =
      [SetWindowTitle (label_text c), ParentSetWindowTitle (label_text c),
       LineSourcePathSetText p, SrcDocSetPlainText t,
       TextHelpSetHtml (help_html c p), ModelRefresh (Some n), AutoresizeColumns]"
    by (simp add: calls_since_def)
  have m: "SrcDocSetPlainText t \<in> set (calls_since w w')"
    by (simp add: k')
  have l: "filter is_logger_error (calls_since w w') = []"
    by (simp add: k')
  have i: "snd (import_pygments (Inl e)) = None
         \<and> length (filter is_logger_error (fst (import_pygments (Inl e)))) = 1"
    by (simp add: import_pygments_def)
  from r s' m l i show ?thesis
    by blast
qed

text \<open>Selecting \<open>Q1\<close> in the process where the import of \<^verbatim>\<open>pygments\<close> failed.\<close>

theorem set_component_plain_source_witness:
  "highlight fresh_widget = None
   \<and> component (fresh_widget\<lparr>component_name := Some ''Q1''\<rparr>) = Some Q1
   \<and> getfile (comp_class Q1) = Inr ''/opt/qiskit_metal/components/qubits/transmon_pocket.py''
   \<and> files fresh_widget ''/opt/qiskit_metal/components/qubits/transmon_pocket.py''
        = Some transmon_source
   \<and> (\<exists>w'. set_component (Some ''Q1'') fresh_widget = Returns w'
            \<and> src_doc w' = PlainText transmon_source
            \<and> SrcDocSetPlainText transmon_source \<in> set (calls_since fresh_widget w')
            \<and> filter is_logger_error (calls_since fresh_widget w') = [])
   \<and> snd (import_pygments (Inl ''No module named pygments'')) = None
   \<and> length (filter is_logger_error
        (fst (import_pygments (Inl ''No module named pygments'')))) = 1"
  using highlight_fresh fresh_Q1 getfile_Q1 disk_Q1
    set_component_plain_source [OF highlight_fresh fresh_Q1 getfile_Q1 disk_Q1,
      of "''No module named pygments''"]
  by blast

section \<open>The source editor\<close>

text \<open>
  Claim C8: with no component selected, \<open>edit_source\<close> opens exactly one warning dialog,
  constructs no editor and leaves the list of editors as it was. With a component selected
  whose class has a source file, one call constructs exactly one editor, for that class,
  module and file, appends it to the list of editors, and opens no warning dialog.
\<close>

theorem edit_source_warning_or_editor:
  "(component w = None \<longrightarrow>
      (\<exists>w'. edit_source parent w = Returns w'
         \<and> length (filter is_warning (calls_since w w')) = 1
         \<and> filter is_create_editor (calls_since w w') = []
         \<and> src_widgets w' = src_widgets w))
   \<and> (component w = Some c \<and> getfile (comp_class c) = Inr p \<longrightarrow>
      (\<exists>w'. edit_source parent w = Returns w'
         \<and> filter is_create_editor (calls_since w w') =
             [CreateSourceEditWidget (cls_name (comp_class c)) (cls_module (comp_class c)) p parent]
         \<and> src_widgets w' = src_widgets w @
             [SourceEditWidget (cls_name (comp_class c)) (cls_module (comp_class c)) p parent]
         \<and> filter is_warning (calls_since w w') = []))"
  by (simp add: edit_source_def calls_since_def class_of_def Let_def)

text \<open>Both cases: the freshly built widget, and the same widget with \<open>Q1\<close> selected.\<close>

theorem edit_source_warning_or_editor_witness:
  "component fresh_widget = None
   \<and> (\<exists>w'. edit_source None fresh_widget = Returns w'
         \<and> length (filter is_warning (calls_since fresh_widget w')) = 1
         \<and> filter is_create_editor (calls_since fresh_widget w') = []
         \<and> src_widgets w' = src_widgets fresh_widget)
   \<and> component (fresh_widget\<lparr>component_name := Some ''Q1''\<rparr>) = Some Q1
   \<and> getfile (comp_class Q1) = Inr ''/opt/qiskit_metal/components/qubits/transmon_pocket.py''
   \<and> (\<exists>w'. edit_source (Some 7) (fresh_widget\<lparr>component_name := Some ''Q1''\<rparr>) = Returns w'
         \<and> filter is_create_editor
              (calls_since (fresh_widget\<lparr>component_name := Some ''Q1''\<rparr>) w') =
             [CreateSourceEditWidget (cls_name (comp_class Q1)) (cls_module (comp_class Q1))
                ''/opt/qiskit_metal/components/qubits/transmon_pocket.py'' (Some 7)]
         \<and> src_widgets w' = src_widgets (fresh_widget\<lparr>component_name := Some ''Q1''\<rparr>) @
             [SourceEditWidget (cls_name (comp_class Q1)) (cls_module (comp_class Q1))
                ''/opt/qiskit_metal/components/qubits/transmon_pocket.py'' (Some 7)]
         \<and> filter is_warning
              (calls_since (fresh_widget\<lparr>component_name := Some ''Q1''\<rparr>) w') = [])"
  using component_fresh_None fresh_Q1 getfile_Q1
    edit_source_warning_or_editor [where w = fresh_widget and parent = None]
    edit_source_warning_or_editor [where w = "fresh_widget\<lparr>component_name := Some ''Q1''\<rparr>"
      and c = Q1 and p = "''/opt/qiskit_metal/components/qubits/transmon_pocket.py''"
      and parent = "Some 7"]
  by blast

end
